theory Spec2Isabelle
  imports Complex_Main "HOL-Library.AList"
begin

section \<open>Pose-scoring engine of the yoga coach\<close>

text \<open>
  A shallow embedding of \<^verbatim>\<open>lambda_functions/shared/dtw_simple.py\<close> and of the
  scoring methods of \<^verbatim>\<open>YogaPoseAnalyzer\<close> in
  \<^verbatim>\<open>lambda_functions/shared/yoga_pose_analyzer.py\<close>.

  Python floats are idealised as \<^typ>\<open>real\<close>. Where the source can produce a float that
  is not a number (\<^verbatim>\<open>np.inf\<close> in the cost matrix, \<^verbatim>\<open>nan\<close> from a numpy division)
  the value is written as a constructor of its own, so that it stays visible.
\<close>

subsection \<open>dtw\_simple.py\<close>

text \<open>A cell of the cost matrix: a finite number or \<^verbatim>\<open>np.inf\<close>.\<close>

datatype xreal = Fin real | PInf

text \<open>\<^verbatim>\<open>cost + x\<close> for a finite \<^verbatim>\<open>cost\<close>.\<close>

fun xadd :: "real \<Rightarrow> xreal \<Rightarrow> xreal" where
  "xadd c (Fin x) = Fin (c + x)"
| "xadd c PInf = PInf"

text \<open>Python's \<^verbatim>\<open>min\<close> of two and of three cells.\<close>

fun xmin :: "xreal \<Rightarrow> xreal \<Rightarrow> xreal" where
  "xmin (Fin x) (Fin y) = Fin (min x y)"
| "xmin (Fin x) PInf = Fin x"
| "xmin PInf y = y"

definition min3 :: "xreal \<Rightarrow> xreal \<Rightarrow> xreal \<Rightarrow> xreal" where
  "min3 x y z = xmin (xmin x y) z"

text \<open>\<^verbatim>\<open>distance / path_length\<close> for a positive \<^verbatim>\<open>path_length\<close>.\<close>

fun xdiv :: "xreal \<Rightarrow> real \<Rightarrow> xreal" where
  "xdiv (Fin x) d = Fin (x / d)"
| "xdiv PInf d = PInf"

text \<open>\<^verbatim>\<open>np.full((r, c), v)\<close>, and reading and writing \<^verbatim>\<open>dtw_matrix[i, j]\<close>.\<close>

definition np_full :: "nat \<Rightarrow> nat \<Rightarrow> xreal \<Rightarrow> xreal list list" where
  "np_full r c v = replicate r (replicate c v)"

definition mat_get :: "xreal list list \<Rightarrow> nat \<Rightarrow> nat \<Rightarrow> xreal" where
  "mat_get M i j = M ! i ! j"

definition mat_set :: "xreal list list \<Rightarrow> nat \<Rightarrow> nat \<Rightarrow> xreal \<Rightarrow> xreal list list" where
  "mat_set M i j v = M[i := (M ! i)[j := v]]"

text \<open>The body of the inner loop of \<^verbatim>\<open>dtw_distance\<close>, at row \<open>i\<close> and column \<open>j\<close>.\<close>

definition dtw_cell :: "real list \<Rightarrow> real list \<Rightarrow> nat \<Rightarrow> xreal list list \<Rightarrow> nat \<Rightarrow> xreal list list" where
  "dtw_cell seq1 seq2 i M j =
     (let cost = \<bar>seq1 ! (i - 1) - seq2 ! (j - 1)\<bar>
      in mat_set M i j
           (xadd cost (min3 (mat_get M (i - 1) j) (mat_get M i (j - 1)) (mat_get M (i - 1) (j - 1)))))"

text \<open>\<^verbatim>\<open>for j in range(1, m + 1)\<close>, one row of the matrix.\<close>

definition dtw_row :: "real list \<Rightarrow> real list \<Rightarrow> nat \<Rightarrow> xreal list list \<Rightarrow> xreal list list" where
  "dtw_row seq1 seq2 i M = fold (\<lambda>j M'. dtw_cell seq1 seq2 i M' j) [1 ..< length seq2 + 1] M"

text \<open>\<^verbatim>\<open>for i in range(1, n + 1)\<close>, the whole matrix.\<close>

definition dtw_fill :: "real list \<Rightarrow> real list \<Rightarrow> xreal list list \<Rightarrow> xreal list list" where
  "dtw_fill seq1 seq2 M = fold (\<lambda>i M'. dtw_row seq1 seq2 i M') [1 ..< length seq1 + 1] M"

definition dtw_distance :: "real list \<Rightarrow> real list \<Rightarrow> xreal" where
  "dtw_distance seq1 seq2 =
     (let n = length seq1; m = length seq2;
          dtw_matrix = mat_set (np_full (n + 1) (m + 1) PInf) 0 0 (Fin 0)
      in mat_get (dtw_fill seq1 seq2 dtw_matrix) n m)"

definition normalized_dtw_distance :: "real list \<Rightarrow> real list \<Rightarrow> xreal" where
  "normalized_dtw_distance seq1 seq2 =
     (let distance = dtw_distance seq1 seq2;
          path_length = length seq1 + length seq2
      in if path_length > 0 then xdiv distance (real path_length) else Fin 0)"

text \<open>
  \<^verbatim>\<open>max(0.0, 100.0 - (norm_distance / max_angle_diff) * 100.0)\<close>; for an infinite
  \<^verbatim>\<open>norm_distance\<close> and a positive \<^verbatim>\<open>max_angle_diff\<close> the difference is
  \<^verbatim>\<open>-inf\<close> and the maximum is \<^verbatim>\<open>0.0\<close>.
\<close>

definition dtw_score :: "real list \<Rightarrow> real list \<Rightarrow> real \<Rightarrow> real" where
  "dtw_score seq1 seq2 max_angle_diff =
     (if seq1 = [] \<or> seq2 = [] then 0
      else (case normalized_dtw_distance seq1 seq2 of
              Fin norm_distance \<Rightarrow> max 0 (100 - (norm_distance / max_angle_diff) * 100)
            | PInf \<Rightarrow> 0))"

subsection \<open>The reference algorithm of the specification\<close>

text \<open>
  The cost matrix as the specification words it: \<open>C[0][0] = 0\<close>, every other boundary
  cell \<open>+\<infinity>\<close>, and
  \<open>C[i][j] = |a[i-1] - b[j-1]| + min (C[i-1][j], C[i][j-1], C[i-1][j-1])\<close>.
\<close>

fun dtw_C :: "real list \<Rightarrow> real list \<Rightarrow> nat \<Rightarrow> nat \<Rightarrow> xreal" where
  "dtw_C a b 0 0 = Fin 0"
| "dtw_C a b 0 (Suc j) = PInf"
| "dtw_C a b (Suc i) 0 = PInf"
| "dtw_C a b (Suc i) (Suc j) =
     xadd \<bar>a ! i - b ! j\<bar> (min3 (dtw_C a b i (Suc j)) (dtw_C a b (Suc i) j) (dtw_C a b i j))"

text \<open>
  \<open>normalized = distance / (n + m)\<close> and \<open>score = max (0, 100 - (normalized / 180) * 100)\<close>;
  an infinite distance scores 0.
\<close>

definition dtw_score_spec :: "real list \<Rightarrow> real list \<Rightarrow> real" where
  "dtw_score_spec a b =
     (case dtw_C a b (length a) (length b) of
        Fin distance \<Rightarrow> max 0 (100 - ((distance / real (length a + length b)) / 180) * 100)
      | PInf \<Rightarrow> 0)"

subsection \<open>yoga\_pose\_analyzer.py: configuration\<close>

datatype error = ValueError

text \<open>One entry of \<^verbatim>\<open>POSE_ANGLE_DEFINITIONS\<close>: the tracked angles and their tolerances.\<close>

record angle_config =
  angles :: "string list"
  tolerances :: "(string \<times> real) list"

definition POSE_ANGLE_DEFINITIONS :: "(string \<times> angle_config) list" where
  "POSE_ANGLE_DEFINITIONS =
    [(''downward-dog'',
      \<lparr>angles = [''left_shoulder'', ''right_shoulder'', ''left_hip'', ''right_hip'',
                 ''left_knee'', ''right_knee'', ''spine_alignment''],
       tolerances = [(''left_shoulder'', 15), (''right_shoulder'', 15), (''left_hip'', 20),
                     (''right_hip'', 20), (''left_knee'', 10), (''right_knee'', 10),
                     (''spine_alignment'', 8)]\<rparr>),
     (''warrior-1'',
      \<lparr>angles = [''left_hip'', ''right_hip'', ''left_knee'', ''right_knee'',
                 ''left_shoulder'', ''right_shoulder'', ''spine_alignment''],
       tolerances = [(''left_hip'', 25), (''right_hip'', 25), (''left_knee'', 15),
                     (''right_knee'', 15), (''left_shoulder'', 20), (''right_shoulder'', 20),
                     (''spine_alignment'', 10)]\<rparr>),
     (''warrior-2'',
      \<lparr>angles = [''left_hip'', ''right_hip'', ''left_knee'', ''right_knee'',
                 ''left_shoulder'', ''right_shoulder'', ''left_elbow'', ''right_elbow''],
       tolerances = [(''left_hip'', 25), (''right_hip'', 25), (''left_knee'', 15),
                     (''right_knee'', 15), (''left_shoulder'', 20), (''right_shoulder'', 20),
                     (''left_elbow'', 10), (''right_elbow'', 10)]\<rparr>),
     (''tree-pose'',
      \<lparr>angles = [''left_hip'', ''right_hip'', ''left_knee'', ''right_knee'',
                 ''left_shoulder'', ''right_shoulder'', ''spine_alignment''],
       tolerances = [(''left_hip'', 20), (''right_hip'', 20), (''left_knee'', 25),
                     (''right_knee'', 25), (''left_shoulder'', 15), (''right_shoulder'', 15),
                     (''spine_alignment'', 12)]\<rparr>),
     (''triangle-pose'',
      \<lparr>angles = [''left_hip'', ''right_hip'', ''left_knee'', ''right_knee'',
                 ''left_shoulder'', ''right_shoulder'', ''spine_alignment''],
       tolerances = [(''left_hip'', 20), (''right_hip'', 20), (''left_knee'', 10),
                     (''right_knee'', 10), (''left_shoulder'', 25), (''right_shoulder'', 25),
                     (''spine_alignment'', 15)]\<rparr>)]"

text \<open>The fields of \<^verbatim>\<open>self\<close> that the scoring methods read.\<close>

record analyzer =
  pose_name :: string
  visibility_threshold :: real
  angle_config :: angle_config

text \<open>\<^verbatim>\<open>__init__\<close>: an unsupported pose raises \<^verbatim>\<open>ValueError\<close>.\<close>

definition YogaPoseAnalyzer :: "string \<Rightarrow> real \<Rightarrow> error + analyzer" where
  "YogaPoseAnalyzer name threshold =
     (case map_of POSE_ANGLE_DEFINITIONS name of
        None \<Rightarrow> Inl ValueError
      | Some config \<Rightarrow>
          Inr \<lparr>pose_name = name, visibility_threshold = threshold, angle_config = config\<rparr>)"

subsection \<open>yoga\_pose\_analyzer.py: the angle calculator\<close>

text \<open>
  A numpy float as \<^verbatim>\<open>_calculate_angle\<close> can meet it. numpy's scalar division does not
  raise \<^verbatim>\<open>ZeroDivisionError\<close>: it warns and yields \<^verbatim>\<open>nan\<close> for \<open>0 / 0\<close> and an
  infinity for \<open>x / 0\<close> otherwise.
\<close>

datatype npfloat = Num real | PosInf | NegInf | NaN

definition np_divide :: "real \<Rightarrow> real \<Rightarrow> npfloat" where
  "np_divide a b =
     (if b \<noteq> 0 then Num (a / b) else if a = 0 then NaN else if 0 < a then PosInf else NegInf)"

fun np_clip :: "npfloat \<Rightarrow> real \<Rightarrow> real \<Rightarrow> npfloat" where
  "np_clip (Num v) lo hi = Num (min hi (max lo v))"
| "np_clip PosInf lo hi = Num hi"
| "np_clip NegInf lo hi = Num lo"
| "np_clip NaN lo hi = NaN"

text \<open>
  \<^verbatim>\<open>math.acos\<close> raises \<^verbatim>\<open>ValueError\<close> outside \<open>[-1, 1]\<close> and returns \<^verbatim>\<open>nan\<close> for
  \<^verbatim>\<open>nan\<close>; \<^verbatim>\<open>math.degrees\<close> passes \<^verbatim>\<open>nan\<close> through.
\<close>

fun math_acos :: "npfloat \<Rightarrow> error + npfloat" where
  "math_acos (Num v) = (if -1 \<le> v \<and> v \<le> 1 then Inr (Num (arccos v)) else Inl ValueError)"
| "math_acos NaN = Inr NaN"
| "math_acos PosInf = Inl ValueError"
| "math_acos NegInf = Inl ValueError"

fun math_degrees :: "npfloat \<Rightarrow> npfloat" where
  "math_degrees (Num v) = Num (v * 180 / pi)"
| "math_degrees v = v"

record point =
  px :: real
  py :: real
  pz :: real

record landmark = point +
  visibility :: real

definition np_dot :: "real \<times> real \<times> real \<Rightarrow> real \<times> real \<times> real \<Rightarrow> real" where
  "np_dot u w = (case (u, w) of ((a, b, c), (d, e, f)) \<Rightarrow> a * d + b * e + c * f)"

definition np_linalg_norm :: "real \<times> real \<times> real \<Rightarrow> real" where
  "np_linalg_norm u = (case u of (a, b, c) \<Rightarrow> sqrt (a * a + b * b + c * c))"

text \<open>
  \<^verbatim>\<open>_calculate_angle\<close>: \<open>None\<close> is the \<^verbatim>\<open>except (ZeroDivisionError, ValueError)\<close>
  branch.
\<close>

definition calculate_angle ::
  "'a point_scheme \<Rightarrow> 'b point_scheme \<Rightarrow> 'c point_scheme \<Rightarrow> npfloat option" where
  "calculate_angle point1 point2 point3 =
     (let vector1 = (px point1 - px point2, py point1 - py point2, pz point1 - pz point2);
          vector2 = (px point3 - px point2, py point3 - py point2, pz point3 - pz point2);
          cos_angle = np_divide (np_dot vector1 vector2)
                        (np_linalg_norm vector1 * np_linalg_norm vector2);
          cos_angle = np_clip cos_angle (-1) 1
      in case math_acos cos_angle of
           Inl _ \<Rightarrow> None
         | Inr angle \<Rightarrow> Some (math_degrees angle))"

fun check_landmarks_visible :: "analyzer \<Rightarrow> (string \<rightharpoonup> landmark) \<Rightarrow> string list \<Rightarrow> bool" where
  "check_landmarks_visible self landmarks [] = True"
| "check_landmarks_visible self landmarks (name # landmark_names) =
     (case landmarks name of
        None \<Rightarrow> False
      | Some l \<Rightarrow>
          if visibility l < visibility_threshold self then False
          else check_landmarks_visible self landmarks landmark_names)"

text \<open>
  One of the eight joint blocks of \<^verbatim>\<open>calculate_angles\<close>: they differ only in the angle
  name and in the three landmarks. The lookups are those of landmarks that
  \<^verbatim>\<open>_check_landmarks_visible\<close> has found present.
\<close>

definition joint_angle ::
  "analyzer \<Rightarrow> (string \<rightharpoonup> landmark) \<Rightarrow> string \<Rightarrow> string \<Rightarrow> string \<Rightarrow> string \<Rightarrow>
   (string \<times> npfloat) list \<Rightarrow> (string \<times> npfloat) list" where
  "joint_angle self landmarks angle_name l1 l2 l3 result =
     (if angle_name \<in> set (angles (angle_config self)) then
        if check_landmarks_visible self landmarks [l1, l2, l3] then
          (case calculate_angle (the (landmarks l1)) (the (landmarks l2)) (the (landmarks l3)) of
             Some angle \<Rightarrow> AList.update angle_name angle result
           | None \<Rightarrow> result)
        else result
      else result)"

definition midpoint :: "landmark \<Rightarrow> landmark \<Rightarrow> point" where
  "midpoint l r = \<lparr>px = (px l + px r) / 2, py = (py l + py r) / 2, pz = (pz l + pz r) / 2\<rparr>"

definition spine_angle ::
  "analyzer \<Rightarrow> (string \<rightharpoonup> landmark) \<Rightarrow> (string \<times> npfloat) list \<Rightarrow> (string \<times> npfloat) list" where
  "spine_angle self landmarks result =
     (if ''spine_alignment'' \<in> set (angles (angle_config self)) then
        if check_landmarks_visible self landmarks
             [''left_hip'', ''right_hip'', ''left_shoulder'', ''right_shoulder'', ''nose''] then
          (let mid_hip = midpoint (the (landmarks ''left_hip'')) (the (landmarks ''right_hip''));
               mid_shoulder =
                 midpoint (the (landmarks ''left_shoulder'')) (the (landmarks ''right_shoulder''))
           in case calculate_angle mid_hip mid_shoulder (the (landmarks ''nose'')) of
                Some angle \<Rightarrow> AList.update ''spine_alignment'' angle result
              | None \<Rightarrow> result)
        else result
      else result)"

text \<open>\<^verbatim>\<open>calculate_angles\<close>: the blocks in the order of the source, on an empty dict.\<close>

definition calculate_angles :: "analyzer \<Rightarrow> (string \<rightharpoonup> landmark) \<Rightarrow> (string \<times> npfloat) list" where
  "calculate_angles self landmarks =
     (spine_angle self landmarks
      (joint_angle self landmarks ''right_elbow'' ''right_shoulder'' ''right_elbow'' ''right_wrist''
      (joint_angle self landmarks ''left_elbow'' ''left_shoulder'' ''left_elbow'' ''left_wrist''
      (joint_angle self landmarks ''right_knee'' ''right_hip'' ''right_knee'' ''right_ankle''
      (joint_angle self landmarks ''left_knee'' ''left_hip'' ''left_knee'' ''left_ankle''
      (joint_angle self landmarks ''right_hip'' ''right_shoulder'' ''right_hip'' ''right_knee''
      (joint_angle self landmarks ''left_hip'' ''left_shoulder'' ''left_hip'' ''left_knee''
      (joint_angle self landmarks ''right_shoulder'' ''right_shoulder'' ''right_elbow'' ''right_wrist''
      (joint_angle self landmarks ''left_shoulder'' ''left_shoulder'' ''left_elbow'' ''left_wrist''
        [])))))))))"

subsection \<open>yoga\_pose\_analyzer.py: the golden standard\<close>

text \<open>
  One frame's angles (a dict, in insertion order) and the statistics of one angle.
  \<^verbatim>\<open>confidence\<close> is optional because \<^verbatim>\<open>evaluate_angles\<close> reads it with
  \<^verbatim>\<open>.get('confidence', 1.0)\<close>.
\<close>

type_synonym frame_angles = "(string \<times> real) list"

record angle_stats =
  s_mean :: real
  s_std :: real
  s_min :: real
  s_max :: real
  s_count :: nat
  s_confidence :: "real option"

text \<open>
  The golden standard document. \<^verbatim>\<open>evaluate_angles\<close> tests whether the keys
  \<^verbatim>\<open>angles\<close> and \<^verbatim>\<open>angle_sequences\<close> are present, so both are optional.
\<close>

record golden_standard =
  gs_pose_name :: string
  gs_created_at :: string
  gs_video_source :: string
  gs_total_frames :: nat
  gs_angles :: "(string \<times> angle_stats) list option"
  gs_angle_sequences :: "frame_angles list option"
  gs_metadata :: "(string \<times> string) list"

text \<open>
  \<^verbatim>\<open>[frame_angles[angle_name] for frame_angles in angle_data if angle_name in frame_angles]\<close>
\<close>

definition angle_values :: "frame_angles list \<Rightarrow> string \<Rightarrow> real list" where
  "angle_values angle_data angle_name =
     map (\<lambda>frame_angles. the (map_of frame_angles angle_name))
       (filter (\<lambda>frame_angles. angle_name \<in> set (map fst frame_angles)) angle_data)"

definition np_mean :: "real list \<Rightarrow> real" where
  "np_mean values = sum_list values / real (length values)"

definition np_std :: "real list \<Rightarrow> real" where
  "np_std values = sqrt (np_mean (map (\<lambda>v. \<bar>v - np_mean values\<bar> ^ 2) values))"

definition np_min :: "real list \<Rightarrow> real" where
  "np_min values = Min (set values)"

definition np_max :: "real list \<Rightarrow> real" where
  "np_max values = Max (set values)"

text \<open>
  The names of \<^verbatim>\<open>all_angle_names\<close>, a Python set: every name once. Its iteration
  order is not fixed by the language; the order taken here is that of \<^const>\<open>remdups\<close>.
\<close>

definition all_angle_names :: "frame_angles list \<Rightarrow> string list" where
  "all_angle_names angle_data = remdups (concat (map (map fst) angle_data))"

definition aggregate_angle ::
  "frame_angles list \<Rightarrow> string \<Rightarrow> (string \<times> angle_stats) list \<Rightarrow> (string \<times> angle_stats) list" where
  "aggregate_angle angle_data angle_name angle_aggregates =
     (let values = angle_values angle_data angle_name
      in if values = [] then angle_aggregates
         else AList.update angle_name
                \<lparr>s_mean = np_mean values, s_std = np_std values,
                 s_min = np_min values, s_max = np_max values,
                 s_count = length values,
                 s_confidence = Some (real (length values) / real (length angle_data))\<rparr>
                angle_aggregates)"

text \<open>
  \<^verbatim>\<open>create_golden_standard\<close>; \<open>now\<close> is the timestamp that the source reads from the
  clock, and a missing \<^verbatim>\<open>metadata\<close> is the empty dict.
\<close>

definition create_golden_standard ::
  "analyzer \<Rightarrow> string \<Rightarrow> frame_angles list \<Rightarrow> string \<Rightarrow> (string \<times> string) list option \<Rightarrow>
   error + golden_standard" where
  "create_golden_standard self now angle_data video_source metadata =
     (if angle_data = [] then Inl ValueError
      else
        let angle_aggregates =
              fold (aggregate_angle angle_data) (all_angle_names angle_data) []
        in Inr \<lparr>gs_pose_name = pose_name self,
                gs_created_at = now,
                gs_video_source = video_source,
                gs_total_frames = length angle_data,
                gs_angles = Some angle_aggregates,
                gs_angle_sequences = Some angle_data,
                gs_metadata = (case metadata of Some m \<Rightarrow> m | None \<Rightarrow> [])\<rparr>)"

subsection \<open>yoga\_pose\_analyzer.py: the evaluation scorer\<close>

text \<open>
  \<^verbatim>\<open>[frame.get(angle_name, None) for frame in frames]\<close> with the \<^verbatim>\<open>None\<close> entries
  filtered out.
\<close>

definition angle_sequence :: "frame_angles list \<Rightarrow> string \<Rightarrow> real list" where
  "angle_sequence frames angle_name =
     map the (filter (\<lambda>val. val \<noteq> None) (map (\<lambda>frame. map_of frame angle_name) frames))"

text \<open>
  The class defines \<^verbatim>\<open>evaluate_with_dtw\<close> twice; Python binds the name to the second
  definition, and that is the one \<^verbatim>\<open>evaluate_angles\<close> calls. It delegates the alignment
  to the external routine \<^verbatim>\<open>fastdtw\<close>, which is a parameter here: it returns the
  distance, or \<open>None\<close> when the import or the call raises (the \<^verbatim>\<open>except Exception\<close>
  branch).
\<close>

definition dtw_angle ::
  "(real list \<Rightarrow> real list \<Rightarrow> real option) \<Rightarrow> frame_angles list \<Rightarrow> frame_angles list \<Rightarrow>
   string \<Rightarrow> (string \<rightharpoonup> real) \<Rightarrow> (string \<rightharpoonup> real)" where
  "dtw_angle fastdtw test_angles golden_angles angle_name dtw_scores =
     (let test_seq = angle_sequence test_angles angle_name;
          golden_seq = angle_sequence golden_angles angle_name
      in if length test_seq < 3 \<or> length golden_seq < 3 then dtw_scores
         else (case fastdtw test_seq golden_seq of
                 None \<Rightarrow> dtw_scores
               | Some distance \<Rightarrow>
                   let avg_length = (real (length test_seq) + real (length golden_seq)) / 2;
                       normalized_distance = distance / avg_length;
                       max_distance = 30
                   in dtw_scores(angle_name \<mapsto>
                        max 0 (100 - (normalized_distance / max_distance) * 100))))"

definition evaluate_with_dtw ::
  "analyzer \<Rightarrow> (real list \<Rightarrow> real list \<Rightarrow> real option) \<Rightarrow> frame_angles list \<Rightarrow>
   frame_angles list \<Rightarrow> (string \<rightharpoonup> real)" where
  "evaluate_with_dtw self fastdtw test_angles golden_angles =
     (if test_angles = [] \<or> golden_angles = [] then Map.empty
      else fold (dtw_angle fastdtw test_angles golden_angles) (angles (angle_config self)) Map.empty)"

datatype angle_status = EXCELLENT | GOOD | NEEDS_IMPROVEMENT | POOR

record angle_evaluation =
  test_mean :: real
  golden_mean :: real
  deviation :: real
  tolerance :: real
  mean_based_score :: real
  dtw_score_value :: "real option"
  combined_score :: real
  score :: real
  status :: angle_status

record evaluation =
  overall_score :: real
  angle_evaluations :: "(string \<times> angle_evaluation) list"
  total_frames :: nat

text \<open>The dict \<^verbatim>\<open>test_angle_means\<close>: one mean for each golden angle seen in a test frame.\<close>

definition test_angle_means ::
  "frame_angles list \<Rightarrow> (string \<times> angle_stats) list \<Rightarrow> (string \<times> real) list" where
  "test_angle_means test_angles golden_angles =
     fold (\<lambda>angle_name means.
             let values = angle_values test_angles angle_name
             in if values \<noteq> [] then AList.update angle_name (np_mean values) means else means)
          (map fst golden_angles) []"

text \<open>The scores of one angle: the body of the loop of \<^verbatim>\<open>evaluate_angles\<close>.\<close>

definition evaluate_angle ::
  "analyzer \<Rightarrow> (string \<rightharpoonup> real) \<Rightarrow> real \<Rightarrow> string \<Rightarrow> angle_stats \<Rightarrow> angle_evaluation" where
  "evaluate_angle self dtw_scores t_mean angle_name golden_stats =
     (let g_mean = s_mean golden_stats;
          tol = (case map_of (tolerances (angle_config self)) angle_name of
                   Some t \<Rightarrow> t | None \<Rightarrow> 15);
          dev = t_mean - g_mean;
          abs_deviation = \<bar>dev\<bar>;
          sc = (if abs_deviation \<le> tol then 100 - (abs_deviation / tol) * 30
                else max 0 (70 - ((abs_deviation - tol) / tol) * 70));
          st = (if sc \<ge> 85 then EXCELLENT
                else if sc \<ge> 70 then GOOD
                else if sc \<ge> 50 then NEEDS_IMPROVEMENT
                else POOR);
          dtw = dtw_scores angle_name;
          combined = (case dtw of Some d \<Rightarrow> sc * 0.7 + d * 0.3 | None \<Rightarrow> sc)
      in \<lparr>test_mean = t_mean, golden_mean = g_mean, deviation = dev, tolerance = tol,
          mean_based_score = sc, dtw_score_value = dtw, combined_score = combined,
          score = combined, status = st\<rparr>)"

text \<open>
  One iteration over \<^verbatim>\<open>golden_standard['angles'].items()\<close>; the state is
  \<^verbatim>\<open>(angle_evaluations, total_score, total_weight)\<close>.
\<close>

definition evaluate_step ::
  "analyzer \<Rightarrow> (string \<rightharpoonup> real) \<Rightarrow> (string \<times> real) list \<Rightarrow> string \<times> angle_stats \<Rightarrow>
   (string \<times> angle_evaluation) list \<times> real \<times> real \<Rightarrow>
   (string \<times> angle_evaluation) list \<times> real \<times> real" where
  "evaluate_step self dtw_scores means item state =
     (case (item, state) of
        ((angle_name, golden_stats), (evaluations, total_score, total_weight)) \<Rightarrow>
          (case map_of means angle_name of
             None \<Rightarrow> state
           | Some t_mean \<Rightarrow>
               let ev = evaluate_angle self dtw_scores t_mean angle_name golden_stats;
                   weight = (case s_confidence golden_stats of Some c \<Rightarrow> c | None \<Rightarrow> 1)
               in (AList.update angle_name ev evaluations,
                   total_score + combined_score ev * weight,
                   total_weight + weight)))"

definition evaluate_angles ::
  "analyzer \<Rightarrow> (real list \<Rightarrow> real list \<Rightarrow> real option) \<Rightarrow> frame_angles list \<Rightarrow>
   golden_standard \<Rightarrow> error + evaluation" where
  "evaluate_angles self fastdtw test_angles golden_standard =
     (if test_angles = [] then Inl ValueError
      else case gs_angles golden_standard of
        None \<Rightarrow> Inl ValueError
      | Some golden_angles \<Rightarrow>
          let means = test_angle_means test_angles golden_angles;
              dtw_scores =
                (case gs_angle_sequences golden_standard of
                   None \<Rightarrow> Map.empty
                 | Some sequences \<Rightarrow>
                     if sequences \<noteq> [] then evaluate_with_dtw self fastdtw test_angles sequences
                     else Map.empty)
          in case fold (evaluate_step self dtw_scores means) golden_angles ([], 0, 0) of
               (evaluations, total_score, total_weight) \<Rightarrow>
                 Inr \<lparr>overall_score = (if total_weight > 0 then total_score / total_weight else 0),
                      angle_evaluations = evaluations,
                      total_frames = length test_angles\<rparr>)"

subsection \<open>Names for what the scorer computes\<close>

text \<open>
  The weight of an angle (\<^verbatim>\<open>golden_stats.get('confidence', 1.0)\<close>), the golden angles
  that some test frame contains, the DTW scores that \<^verbatim>\<open>evaluate_angles\<close> looks up, the
  evaluation of one golden angle, and the statistics record that
  \<^verbatim>\<open>create_golden_standard\<close> builds for one angle.
\<close>

definition weight_of :: "angle_stats \<Rightarrow> real" where
  "weight_of golden_stats = (case s_confidence golden_stats of Some c \<Rightarrow> c | None \<Rightarrow> 1)"

definition included_angles :: "frame_angles list \<Rightarrow> (string \<times> angle_stats) list \<Rightarrow> (string \<times> angle_stats) list" where
  "included_angles test_angles golden_angles =
     filter (\<lambda>item. angle_values test_angles (fst item) \<noteq> []) golden_angles"

definition dtw_scores_of ::
  "analyzer \<Rightarrow> (real list \<Rightarrow> real list \<Rightarrow> real option) \<Rightarrow> frame_angles list \<Rightarrow>
   golden_standard \<Rightarrow> (string \<rightharpoonup> real)" where
  "dtw_scores_of self fastdtw test_angles golden_standard =
     (case gs_angle_sequences golden_standard of
        None \<Rightarrow> Map.empty
      | Some sequences \<Rightarrow>
          if sequences \<noteq> [] then evaluate_with_dtw self fastdtw test_angles sequences
          else Map.empty)"

definition evaluation_of ::
  "analyzer \<Rightarrow> (string \<rightharpoonup> real) \<Rightarrow> frame_angles list \<Rightarrow> string \<times> angle_stats \<Rightarrow> angle_evaluation" where
  "evaluation_of self dtw_scores test_angles item =
     evaluate_angle self dtw_scores (np_mean (angle_values test_angles (fst item))) (fst item) (snd item)"


subsection \<open>Predicates used in the proofs\<close>

text \<open>
  The loop invariant of \<^verbatim>\<open>dtw_distance\<close>: every cell before position \<open>(i, j)\<close> in
  row-major order, and the whole first column, holds the value of the recurrence.
\<close>

definition dtw_inv :: "real list \<Rightarrow> real list \<Rightarrow> nat \<Rightarrow> nat \<Rightarrow> xreal list list \<Rightarrow> bool" where
  "dtw_inv a b i j M \<longleftrightarrow>
     length M = length a + 1 \<and>
     (\<forall>r \<le> length a. length (M ! r) = length b + 1) \<and>
     (\<forall>r c. r \<le> length a \<longrightarrow> c \<le> length b \<longrightarrow> (r < i \<or> (r = i \<and> c \<le> j) \<or> c = 0) \<longrightarrow>
        M ! r ! c = dtw_C a b r c)"

text \<open>The cells of the recurrence are never negative, and finite off the boundary.\<close>

fun xnonneg :: "xreal \<Rightarrow> bool" where
  "xnonneg (Fin v) = (0 \<le> v)"
| "xnonneg PInf = True"

fun is_fin :: "xreal \<Rightarrow> bool" where
  "is_fin (Fin v) = True"
| "is_fin PInf = False"


subsection \<open>Example inputs\<close>

text \<open>
  An aligner that returns the exact distance of \<^verbatim>\<open>dtw_simple.py\<close>, to stand for the
  external routine where a concrete run is evaluated.
\<close>

definition exact_dtw :: "real list \<Rightarrow> real list \<Rightarrow> real option" where
  "exact_dtw a b = (case dtw_distance a b of Fin d \<Rightarrow> Some d | PInf \<Rightarrow> None)"

text \<open>
  The analyzer of the pose \<^verbatim>\<open>downward-dog\<close> with the default threshold, and a golden
  standard of three frames: the left knee opens from 0 to 180 degrees, the right knee is
  seen in the first frame only.
\<close>

definition downward_dog :: analyzer where
  "downward_dog = projr (YogaPoseAnalyzer ''downward-dog'' 0.3)"

definition golden_frames :: "frame_angles list" where
  "golden_frames =
     [[(''left_knee'', 0), (''right_knee'', 10)], [(''left_knee'', 90)], [(''left_knee'', 180)]]"

definition golden :: golden_standard where
  "golden = projr (create_golden_standard downward_dog ''2024-01-01T00:00:00Z'' golden_frames
                     ''golden.mp4'' None)"

definition golden_stats :: "(string \<times> angle_stats) list" where
  "golden_stats =
     [(''right_knee'', \<lparr>s_mean = 10, s_std = np_std [10], s_min = 10, s_max = 10,
                         s_count = 1, s_confidence = Some (1 / 3)\<rparr>),
      (''left_knee'', \<lparr>s_mean = 90, s_std = np_std [0, 90, 180], s_min = 0, s_max = 180,
                        s_count = 3, s_confidence = Some 1\<rparr>)]"

text \<open>
  Test videos: three frames with the left knee held at 90 degrees, and single frames at
  95, 100 and 115 degrees; with each the evaluation that \<^verbatim>\<open>evaluate_angles\<close> returns.
\<close>

definition steady_test :: "frame_angles list" where
  "steady_test = [[(''left_knee'', 90)], [(''left_knee'', 90)], [(''left_knee'', 90)]]"

definition steady_left_knee :: angle_evaluation where
  "steady_left_knee =
     \<lparr>test_mean = 90, golden_mean = 90, deviation = 0, tolerance = 10, mean_based_score = 100,
      dtw_score_value = Some 0, combined_score = 70, score = 70, status = EXCELLENT\<rparr>"

definition steady_result :: evaluation where
  "steady_result =
     \<lparr>overall_score = 70, angle_evaluations = [(''left_knee'', steady_left_knee)], total_frames = 3\<rparr>"

definition single_test :: "frame_angles list" where
  "single_test = [[(''left_knee'', 95)]]"

definition single_left_knee :: angle_evaluation where
  "single_left_knee =
     \<lparr>test_mean = 95, golden_mean = 90, deviation = 5, tolerance = 10, mean_based_score = 85,
      dtw_score_value = None, combined_score = 85, score = 85, status = EXCELLENT\<rparr>"

definition single_result :: evaluation where
  "single_result =
     \<lparr>overall_score = 85, angle_evaluations = [(''left_knee'', single_left_knee)], total_frames = 1\<rparr>"


definition edge_left_knee :: angle_evaluation where
  "edge_left_knee =
     \<lparr>test_mean = 100, golden_mean = 90, deviation = 10, tolerance = 10, mean_based_score = 70,
      dtw_score_value = None, combined_score = 70, score = 70, status = GOOD\<rparr>"

definition edge_result :: evaluation where
  "edge_result =
     \<lparr>overall_score = 70, angle_evaluations = [(''left_knee'', edge_left_knee)], total_frames = 1\<rparr>"


definition far_left_knee :: angle_evaluation where
  "far_left_knee =
     \<lparr>test_mean = 115, golden_mean = 90, deviation = 25, tolerance = 10, mean_based_score = 0,
      dtw_score_value = None, combined_score = 0, score = 0, status = POOR\<rparr>"

definition far_result :: evaluation where
  "far_result =
     \<lparr>overall_score = 0, angle_evaluations = [(''left_knee'', far_left_knee)], total_frames = 1\<rparr>"

text \<open>
  An angle that \<^verbatim>\<open>downward-dog\<close> has no tolerance for, in the golden standard and in
  the test video.
\<close>

definition elbow_frames :: "frame_angles list" where
  "elbow_frames = [[(''left_elbow'', 100)]]"

definition elbow_golden :: golden_standard where
  "elbow_golden = projr (create_golden_standard downward_dog ''2024-01-01T00:00:00Z'' elbow_frames
                           ''golden.mp4'' None)"

definition elbow_stats :: angle_stats where
  "elbow_stats = \<lparr>s_mean = 100, s_std = np_std [100], s_min = 100, s_max = 100,
                   s_count = 1, s_confidence = Some 1\<rparr>"

definition elbow_test :: "frame_angles list" where
  "elbow_test = [[(''left_elbow'', 103)]]"

definition elbow_evaluation :: angle_evaluation where
  "elbow_evaluation =
     \<lparr>test_mean = 103, golden_mean = 100, deviation = 3, tolerance = 15, mean_based_score = 94,
      dtw_score_value = None, combined_score = 94, score = 94, status = EXCELLENT\<rparr>"

definition elbow_result :: evaluation where
  "elbow_result =
     \<lparr>overall_score = 94, angle_evaluations = [(''left_elbow'', elbow_evaluation)], total_frames = 1\<rparr>"

text \<open>
  A frame in which the left shoulder and the left elbow are detected at the same position,
  all three landmarks of the angle fully visible.
\<close>

definition degenerate_landmarks :: "string \<rightharpoonup> landmark" where
  "degenerate_landmarks =
     [''left_shoulder'' \<mapsto> \<lparr>px = 1 / 2, py = 1 / 2, pz = 0, visibility = 1\<rparr>,
      ''left_elbow'' \<mapsto> \<lparr>px = 1 / 2, py = 1 / 2, pz = 0, visibility = 1\<rparr>,
      ''left_wrist'' \<mapsto> \<lparr>px = 3 / 5, py = 7 / 10, pz = 0, visibility = 1\<rparr>]"

section \<open>Properties\<close>

subsection \<open>The cost matrix of dtw\_distance is the recurrence\<close>

lemma dtw_C_boundary: "dtw_C a b 0 c = (if c = 0 then Fin 0 else PInf)" "0 < r \<Longrightarrow> dtw_C a b r 0 = PInf"
  by (cases c; simp) (cases r; simp)

lemma dtw_inv_init:
  "dtw_inv a b 0 (length b) (mat_set (np_full (length a + 1) (length b + 1) PInf) 0 0 (Fin 0))"
proof -
  let ?M = "mat_set (np_full (length a + 1) (length b + 1) PInf) 0 0 (Fin 0)"
  have M: "?M = (Fin 0 # replicate (length b) PInf) # replicate (length a) (replicate (length b + 1) PInf)"
    by (simp add: mat_set_def np_full_def)
  have len: "length ?M = length a + 1" unfolding M by simp
  have rows: "length (?M ! r) = length b + 1" if "r \<le> length a" for r
    unfolding M using that by (cases r) simp_all
  have cells: "?M ! r ! c = dtw_C a b r c"
    if "r \<le> length a" "c \<le> length b" "r < 0 \<or> (r = 0 \<and> c \<le> length b) \<or> c = 0" for r c
  proof (cases r)
    case 0
    then show ?thesis unfolding M using that by (cases c) simp_all
  next
    case (Suc r')
    then have "c = 0" using that by simp
    then show ?thesis unfolding M using Suc that by simp
  qed
  show ?thesis unfolding dtw_inv_def using len rows cells by blast
qed

lemma dtw_cell_inv:
  assumes inv: "dtw_inv a b (Suc i) j M" and i: "Suc i \<le> length a" and j: "j < length b"
  shows "dtw_inv a b (Suc i) (Suc j) (dtw_cell a b (Suc i) M (Suc j))"
proof -
  have len: "length M = length a + 1" and rows: "\<And>r. r \<le> length a \<Longrightarrow> length (M ! r) = length b + 1"
    and cells: "\<And>r c. r \<le> length a \<Longrightarrow> c \<le> length b \<Longrightarrow> (r < Suc i \<or> (r = Suc i \<and> c \<le> j) \<or> c = 0) \<Longrightarrow>
        M ! r ! c = dtw_C a b r c"
    using inv unfolding dtw_inv_def by blast+
  have up: "M ! i ! Suc j = dtw_C a b i (Suc j)" using cells[of i "Suc j"] i j by simp
  have left: "M ! Suc i ! j = dtw_C a b (Suc i) j" using cells[of "Suc i" j] i j by simp
  have diag: "M ! i ! j = dtw_C a b i j" using cells[of i j] i j by simp
  let ?v = "dtw_C a b (Suc i) (Suc j)"
  have eq: "dtw_cell a b (Suc i) M (Suc j) = M[Suc i := (M ! Suc i)[Suc j := ?v]]"
    by (simp add: dtw_cell_def mat_set_def mat_get_def up left diag)
  show ?thesis unfolding eq dtw_inv_def
  proof (intro conjI allI impI)
    show "length (M[Suc i := (M ! Suc i)[Suc j := ?v]]) = length a + 1" using len by simp
  next
    fix r assume "r \<le> length a"
    then show "length (M[Suc i := (M ! Suc i)[Suc j := ?v]] ! r) = length b + 1"
      using rows len by (cases "r = Suc i") (simp_all add: nth_list_update)
  next
    fix r c assume r: "r \<le> length a" and c: "c \<le> length b"
      and h: "r < Suc i \<or> (r = Suc i \<and> c \<le> Suc j) \<or> c = 0"
    show "M[Suc i := (M ! Suc i)[Suc j := ?v]] ! r ! c = dtw_C a b r c"
    proof (cases "r = Suc i")
      case False
      then show ?thesis using cells[of r c] r c h len by (auto simp: nth_list_update)
    next
      case True
      show ?thesis
      proof (cases "c = Suc j")
        case True
        then show ?thesis using \<open>r = Suc i\<close> len rows[of "Suc i"] i j by (simp add: nth_list_update)
      next
        case False
        then have "M ! r ! c = dtw_C a b r c" using cells[of r c] r c h True by auto
        then show ?thesis using True False len i by (simp add: nth_list_update)
      qed
    qed
  qed
qed

lemma dtw_row_fold_inv:
  assumes inv: "dtw_inv a b (Suc i) 0 M" and i: "Suc i \<le> length a"
  shows "k \<le> length b \<Longrightarrow> dtw_inv a b (Suc i) k (fold (\<lambda>j M'. dtw_cell a b (Suc i) M' j) [1 ..< k + 1] M)"
proof (induction k)
  case 0
  then show ?case using inv by simp
next
  case (Suc k)
  then have "dtw_inv a b (Suc i) k (fold (\<lambda>j M'. dtw_cell a b (Suc i) M' j) [1 ..< k + 1] M)" by simp
  then have "dtw_inv a b (Suc i) (Suc k)
      (dtw_cell a b (Suc i) (fold (\<lambda>j M'. dtw_cell a b (Suc i) M' j) [1 ..< k + 1] M) (Suc k))"
    using dtw_cell_inv i Suc.prems by simp
  then show ?case by simp
qed

lemma dtw_inv_next_row:
  "dtw_inv a b i (length b) M \<Longrightarrow> dtw_inv a b (Suc i) 0 M"
  unfolding dtw_inv_def by (auto simp: less_Suc_eq)

lemma dtw_row_inv:
  assumes "dtw_inv a b i (length b) M" and "Suc i \<le> length a"
  shows "dtw_inv a b (Suc i) (length b) (dtw_row a b (Suc i) M)"
  unfolding dtw_row_def using dtw_row_fold_inv[OF dtw_inv_next_row[OF assms(1)] assms(2), of "length b"] by simp

lemma dtw_fill_fold_inv:
  assumes inv: "dtw_inv a b 0 (length b) M"
  shows "k \<le> length a \<Longrightarrow> dtw_inv a b k (length b) (fold (\<lambda>i M'. dtw_row a b i M') [1 ..< k + 1] M)"
proof (induction k)
  case 0
  then show ?case using inv by simp
next
  case (Suc k)
  then have "dtw_inv a b k (length b) (fold (\<lambda>i M'. dtw_row a b i M') [1 ..< k + 1] M)" by simp
  then show ?case using dtw_row_inv Suc.prems by simp
qed

lemma dtw_distance_eq_C: "dtw_distance a b = dtw_C a b (length a) (length b)"
proof -
  let ?M0 = "mat_set (np_full (length a + 1) (length b + 1) PInf) 0 0 (Fin 0)"
  have "dtw_inv a b (length a) (length b) (dtw_fill a b ?M0)"
    unfolding dtw_fill_def using dtw_fill_fold_inv[OF dtw_inv_init, of "length a"] by simp
  then have "dtw_fill a b ?M0 ! length a ! length b = dtw_C a b (length a) (length b)"
    unfolding dtw_inv_def by blast
  then show ?thesis
    by (simp add: dtw_distance_def mat_get_def Let_def)
qed


lemma xnonneg_min3: "xnonneg x \<Longrightarrow> xnonneg y \<Longrightarrow> xnonneg z \<Longrightarrow> xnonneg (min3 x y z)"
  by (cases x; cases y; cases z) (simp_all add: min3_def)

lemma xnonneg_xadd: "0 \<le> c \<Longrightarrow> xnonneg x \<Longrightarrow> xnonneg (xadd c x)"
  by (cases x) simp_all

lemma dtw_C_nonneg: "xnonneg (dtw_C a b i j)"
  by (induction a b i j rule: dtw_C.induct) (simp_all add: xnonneg_min3 xnonneg_xadd)

lemma is_fin_min3: "is_fin (min3 x y z) = (is_fin x \<or> is_fin y \<or> is_fin z)"
  by (cases x; cases y; cases z) (simp_all add: min3_def)

lemma is_fin_xadd: "is_fin (xadd c x) = is_fin x"
  by (cases x) simp_all

lemma dtw_C_is_fin: "is_fin (dtw_C a b i j) = ((i = 0) = (j = 0))"
  by (induction a b i j rule: dtw_C.induct) (auto simp: is_fin_min3 is_fin_xadd)

lemma min3_zero: "xnonneg x \<Longrightarrow> xnonneg y \<Longrightarrow> min3 x y (Fin 0) = Fin 0"
  by (cases x; cases y) (simp_all add: min3_def)

lemma dtw_C_diag: "dtw_C a a i i = Fin 0"
  by (induction i) (simp_all add: min3_zero dtw_C_nonneg)

lemma dtw_score_eq_spec:
  assumes "a \<noteq> [] \<or> b \<noteq> []"
  shows "dtw_score a b 180 = dtw_score_spec a b"
proof (cases "a = [] \<or> b = []")
  case True
  then have "\<not> is_fin (dtw_C a b (length a) (length b))"
    using assms by (auto simp: dtw_C_is_fin)
  then have "dtw_C a b (length a) (length b) = PInf"
    by (cases "dtw_C a b (length a) (length b)") simp_all
  then show ?thesis using True by (simp add: dtw_score_def dtw_score_spec_def)
next
  case False
  then show ?thesis
    by (simp add: dtw_score_def dtw_score_spec_def normalized_dtw_distance_def dtw_distance_eq_C
        split: xreal.splits)
qed

lemma dtw_score_spec_range: "0 \<le> dtw_score_spec a b \<and> dtw_score_spec a b \<le> 100"
proof (cases "dtw_C a b (length a) (length b)")
  case (Fin d)
  then have "0 \<le> d" using dtw_C_nonneg[of a b "length a" "length b"] by simp
  then have "0 \<le> d / real (length a + length b) / 180 * 100" by simp
  then show ?thesis using Fin by (simp add: dtw_score_spec_def)
next
  case PInf
  then show ?thesis by (simp add: dtw_score_spec_def)
qed

lemma dtw_score_range: "0 \<le> dtw_score a b 180 \<and> dtw_score a b 180 \<le> 100"
proof (cases "a = [] \<and> b = []")
  case True
  then show ?thesis by (simp add: dtw_score_def)
next
  case False
  then show ?thesis using dtw_score_eq_spec[of a b] dtw_score_spec_range[of a b] by auto
qed

lemma dtw_score_self: "a \<noteq> [] \<Longrightarrow> dtw_score a a 180 = 100"
  using dtw_score_eq_spec[of a a] by (simp add: dtw_score_spec_def dtw_C_diag)

subsection \<open>C4: the standalone dtw\_score\<close>

text \<open>
  C4, as amended. For sequences \<open>a\<close> and \<open>b\<close> that are not both empty, \<^verbatim>\<open>dtw_score\<close>
  computes the reference of the specification: the distance \<open>C[n][m]\<close> of the recurrence,
  divided by \<open>n + m\<close>, turned into \<open>max (0, 100 - (normalized / 180) * 100)\<close> (an infinite
  distance scoring 0). The score lies in \<open>[0, 100]\<close> for all inputs. A non-empty sequence
  against itself has distance 0 and scores exactly 100. Two empty sequences score 0, by
  the guard at the head of the function.
\<close>

theorem dtw_score_refines_spec:
  "(a \<noteq> [] \<or> b \<noteq> [] \<longrightarrow> dtw_score a b 180 = dtw_score_spec a b) \<and>
   0 \<le> dtw_score a b 180 \<and> dtw_score a b 180 \<le> 100 \<and>
   (a \<noteq> [] \<longrightarrow> dtw_distance a a = Fin 0 \<and> dtw_score a a 180 = 100) \<and>
   dtw_score [] [] 180 = 0"
  using dtw_score_eq_spec[of a b] dtw_score_range[of a b] dtw_score_self[of a]
  by (simp add: dtw_distance_eq_C dtw_C_diag) (simp add: dtw_score_def)

theorem dtw_score_refines_spec_witness:
  "dtw_score [10, 20, 30] [10, 20, 40] 180 = dtw_score_spec [10, 20, 30] [10, 20, 40] \<and>
   dtw_score_spec [10, 20, 30] [10, 20, 40] = 100 - 25 / 27 \<and>
   dtw_distance [10, 20, 30] [10, 20, 30] = Fin 0 \<and>
   dtw_score [10, 20, 30] [10, 20, 30] 180 = 100"
  using dtw_score_refines_spec[of "[10, 20, 30]" "[10, 20, 40]"]
        dtw_score_refines_spec[of "[10, 20, 30]" "[10, 20, 30]"]
  by (simp add: dtw_score_spec_def min3_def)

text \<open>
  C4 as stated fails at \<open>a = b = []\<close>: the sequences are equal and the distance is
  \<open>C[0][0] = 0\<close>, yet the function returns 0 and not 100.
\<close>

theorem dtw_score_empty_counterexample:
  "dtw_C [] [] 0 0 = Fin 0 \<and> dtw_score [] [] 180 = 0 \<and> dtw_score [] [] 180 \<noteq> 100"
  by (simp add: dtw_score_def)

subsection \<open>What evaluate\_angles returns\<close>

text \<open>
  For a golden standard whose angle names are distinct, as the keys of a dict are, the loop
  of \<^verbatim>\<open>evaluate_angles\<close> evaluates exactly the golden angles that some test frame
  contains, in order, and sums their weighted combined scores.
\<close>

lemma update_new: "k \<notin> set (map fst al) \<Longrightarrow> AList.update k v al = al @ [(k, v)]"
  by (induction al) auto

lemma test_angle_means_fold:
  "map_of (fold (\<lambda>angle_name means.
             let values = angle_values test_angles angle_name
             in if values \<noteq> [] then AList.update angle_name (np_mean values) means else means) ks acc) name
   = (if name \<in> set ks \<and> angle_values test_angles name \<noteq> []
      then Some (np_mean (angle_values test_angles name)) else map_of acc name)"
  by (induction ks arbitrary: acc) (auto simp: update_conv' Let_def)

lemma test_angle_means_lookup:
  "map_of (test_angle_means test_angles al) name
   = (if name \<in> set (map fst al) \<and> angle_values test_angles name \<noteq> []
      then Some (np_mean (angle_values test_angles name)) else None)"
  unfolding test_angle_means_def by (simp add: test_angle_means_fold)

lemma evaluate_step_fold:
  assumes "distinct (map fst al)" and "set (map fst al) \<inter> set (map fst evs) = {}"
    and "set (map fst al) \<subseteq> set (map fst al0)"
  shows "fold (evaluate_step self D (test_angle_means test_angles al0)) al (evs, ts, tw)
       = (evs @ map (\<lambda>item. (fst item, evaluation_of self D test_angles item)) (included_angles test_angles al),
          ts + sum_list (map (\<lambda>item. combined_score (evaluation_of self D test_angles item) * weight_of (snd item))
                  (included_angles test_angles al)),
          tw + sum_list (map (\<lambda>item. weight_of (snd item)) (included_angles test_angles al)))"
  using assms
proof (induction al arbitrary: evs ts tw)
  case Nil
  then show ?case by (simp add: included_angles_def)
next
  case (Cons item al)
  obtain n s where item: "item = (n, s)" by (cases item)
  have n0: "n \<in> set (map fst al0)" using Cons.prems(3) item by simp
  show ?case
  proof (cases "angle_values test_angles n = []")
    case True
    then have step: "evaluate_step self D (test_angle_means test_angles al0) item (evs, ts, tw) = (evs, ts, tw)"
      by (simp add: evaluate_step_def item test_angle_means_lookup)
    have inc: "included_angles test_angles (item # al) = included_angles test_angles al"
      using True by (simp add: included_angles_def item)
    have "fold (evaluate_step self D (test_angle_means test_angles al0)) al (evs, ts, tw)
       = (evs @ map (\<lambda>item. (fst item, evaluation_of self D test_angles item)) (included_angles test_angles al),
          ts + sum_list (map (\<lambda>item. combined_score (evaluation_of self D test_angles item) * weight_of (snd item))
                  (included_angles test_angles al)),
          tw + sum_list (map (\<lambda>item. weight_of (snd item)) (included_angles test_angles al)))"
      using Cons.prems by (intro Cons.IH) auto
    then show ?thesis using step inc by simp
  next
    case False
    let ?ev = "evaluation_of self D test_angles item"
    have nev: "n \<notin> set (map fst evs)" using Cons.prems(2) item by auto
    have step: "evaluate_step self D (test_angle_means test_angles al0) item (evs, ts, tw)
        = (evs @ [(n, ?ev)], ts + combined_score ?ev * weight_of s, tw + weight_of s)"
      using False n0 nev
      by (simp add: evaluate_step_def item test_angle_means_lookup Let_def update_new
          evaluation_of_def weight_of_def)
    have inc: "included_angles test_angles (item # al) = item # included_angles test_angles al"
      using False by (simp add: included_angles_def item)
    have "fold (evaluate_step self D (test_angle_means test_angles al0)) al
            (evs @ [(n, ?ev)], ts + combined_score ?ev * weight_of s, tw + weight_of s)
       = ((evs @ [(n, ?ev)]) @ map (\<lambda>item. (fst item, evaluation_of self D test_angles item)) (included_angles test_angles al),
          (ts + combined_score ?ev * weight_of s) + sum_list (map (\<lambda>item. combined_score (evaluation_of self D test_angles item) * weight_of (snd item))
                  (included_angles test_angles al)),
          (tw + weight_of s) + sum_list (map (\<lambda>item. weight_of (snd item)) (included_angles test_angles al)))"
      using Cons.prems item by (intro Cons.IH) auto
    then show ?thesis using step inc item by (simp add: add.assoc)
  qed
qed

lemma evaluate_angles_result:
  assumes "test_angles \<noteq> []" and "gs_angles gs = Some al" and "distinct (map fst al)"
  shows "evaluate_angles self fastdtw test_angles gs =
     Inr \<lparr>overall_score =
            (let D = dtw_scores_of self fastdtw test_angles gs;
                 total_score = sum_list (map (\<lambda>item. combined_score (evaluation_of self D test_angles item) * weight_of (snd item))
                                  (included_angles test_angles al));
                 total_weight = sum_list (map (\<lambda>item. weight_of (snd item)) (included_angles test_angles al))
             in if total_weight > 0 then total_score / total_weight else 0),
          angle_evaluations =
            map (\<lambda>item. (fst item, evaluation_of self (dtw_scores_of self fastdtw test_angles gs) test_angles item))
              (included_angles test_angles al),
          total_frames = length test_angles\<rparr>"
proof -
  have "fold (evaluate_step self (dtw_scores_of self fastdtw test_angles gs) (test_angle_means test_angles al)) al ([], 0, 0)
     = ([] @ map (\<lambda>item. (fst item, evaluation_of self (dtw_scores_of self fastdtw test_angles gs) test_angles item)) (included_angles test_angles al),
          0 + sum_list (map (\<lambda>item. combined_score (evaluation_of self (dtw_scores_of self fastdtw test_angles gs) test_angles item) * weight_of (snd item))
                  (included_angles test_angles al)),
          0 + sum_list (map (\<lambda>item. weight_of (snd item)) (included_angles test_angles al)))"
    using assms(3) by (intro evaluate_step_fold) auto
  then show ?thesis
    using assms(1,2) by (simp add: evaluate_angles_def dtw_scores_of_def Let_def)
qed

lemma map_of_keyed_map:
  "map_of (map (\<lambda>item. (fst item, f item)) xs) k = map_option (\<lambda>v. f (k, v)) (map_of xs k)"
  by (induction xs) auto

lemma map_of_key_filter:
  "map_of (filter (\<lambda>item. P (fst item)) xs) k = (if P k then map_of xs k else None)"
  by (induction xs) auto

lemma evaluate_angle_fields:
  "test_mean (evaluate_angle self D t n s) = t"
  "golden_mean (evaluate_angle self D t n s) = s_mean s"
  "deviation (evaluate_angle self D t n s) = t - s_mean s"
  "tolerance (evaluate_angle self D t n s) =
     (case map_of (tolerances (angle_config self)) n of Some x \<Rightarrow> x | None \<Rightarrow> 15)"
  "dtw_score_value (evaluate_angle self D t n s) = D n"
  by (simp_all add: evaluate_angle_def Let_def)

lemma evaluate_angle_mean_based_score:
  "mean_based_score (evaluate_angle self D t n s) =
     (if \<bar>deviation (evaluate_angle self D t n s)\<bar> \<le> tolerance (evaluate_angle self D t n s)
      then 100 - (\<bar>deviation (evaluate_angle self D t n s)\<bar> / tolerance (evaluate_angle self D t n s)) * 30
      else max 0 (70 - ((\<bar>deviation (evaluate_angle self D t n s)\<bar> - tolerance (evaluate_angle self D t n s))
                         / tolerance (evaluate_angle self D t n s)) * 70))"
  by (simp add: evaluate_angle_def Let_def)


lemma evaluate_angle_combined_score:
  "combined_score (evaluate_angle self D t n s) =
     (case dtw_score_value (evaluate_angle self D t n s) of
        Some d \<Rightarrow> mean_based_score (evaluate_angle self D t n s) * 0.7 + d * 0.3
      | None \<Rightarrow> mean_based_score (evaluate_angle self D t n s))"
  by (simp add: evaluate_angle_def Let_def split: option.splits)

lemma evaluate_angles_entry:
  assumes run: "evaluate_angles self fastdtw test_angles gs = Inr res"
    and al: "gs_angles gs = Some al" and dist: "distinct (map fst al)"
  shows "map_of (angle_evaluations res) name =
           (if angle_values test_angles name \<noteq> []
            then map_option (\<lambda>s. evaluate_angle self (dtw_scores_of self fastdtw test_angles gs)
                                   (np_mean (angle_values test_angles name)) name s) (map_of al name)
            else None)"
proof -
  have ne: "test_angles \<noteq> []" using run by (auto simp: evaluate_angles_def split: if_splits)
  have "angle_evaluations res =
          map (\<lambda>item. (fst item, evaluation_of self (dtw_scores_of self fastdtw test_angles gs) test_angles item))
              (included_angles test_angles al)"
    using evaluate_angles_result[OF ne al dist, of self fastdtw] run by simp
  then show ?thesis
    by (simp add: map_of_keyed_map included_angles_def evaluation_of_def
        map_of_key_filter[where P = "\<lambda>n. angle_values test_angles n \<noteq> []"])
qed

lemma evaluate_angles_entryD:
  assumes run: "evaluate_angles self fastdtw test_angles gs = Inr res"
    and al: "gs_angles gs = Some al" and dist: "distinct (map fst al)"
    and ev: "map_of (angle_evaluations res) name = Some ev"
  shows "angle_values test_angles name \<noteq> [] \<and>
         (\<exists>s. map_of al name = Some s \<and>
              ev = evaluate_angle self (dtw_scores_of self fastdtw test_angles gs)
                     (np_mean (angle_values test_angles name)) name s)"
  using ev unfolding evaluate_angles_entry[OF run al dist]
  by (auto split: if_splits)

subsection \<open>Evaluating the examples\<close>

lemma downward_dog_config:
  "angles (angle_config downward_dog) =
     [''left_shoulder'', ''right_shoulder'', ''left_hip'', ''right_hip'',
      ''left_knee'', ''right_knee'', ''spine_alignment'']"
  "tolerances (angle_config downward_dog) =
     [(''left_shoulder'', 15), (''right_shoulder'', 15), (''left_hip'', 20),
      (''right_hip'', 20), (''left_knee'', 10), (''right_knee'', 10), (''spine_alignment'', 8)]"
  "visibility_threshold downward_dog = 0.3"
  "pose_name downward_dog = ''downward-dog''"
  by (simp_all add: downward_dog_def YogaPoseAnalyzer_def POSE_ANGLE_DEFINITIONS_def)

lemma golden_run:
  "create_golden_standard downward_dog ''2024-01-01T00:00:00Z'' golden_frames ''golden.mp4'' None
     = Inr golden"
  by (simp add: golden_def create_golden_standard_def golden_frames_def)

lemma golden_fields:
  "gs_angles golden = Some golden_stats"
  "gs_angle_sequences golden = Some golden_frames"
  "gs_total_frames golden = 3"
  by (simp_all add: golden_def create_golden_standard_def golden_frames_def golden_stats_def
      all_angle_names_def aggregate_angle_def angle_values_def np_mean_def np_min_def np_max_def
      Let_def)

lemma golden_stats_distinct: "distinct (map fst golden_stats)"
  by (simp add: golden_stats_def)

lemma exact_dtw_steady: "exact_dtw [90, 90, 90] [0, 90, 180] = Some 180"
  by (simp add: exact_dtw_def dtw_distance_eq_C numeral_3_eq_3 min3_def)

lemma steady_sequences:
  "angle_sequence steady_test ''left_knee'' = [90, 90, 90]"
  "angle_sequence golden_frames ''left_knee'' = [0, 90, 180]"
  "angle_sequence steady_test ''right_knee'' = []"
  by (simp_all add: angle_sequence_def steady_test_def golden_frames_def)

lemma steady_run: "evaluate_angles downward_dog exact_dtw steady_test golden = Inr steady_result"
  by (simp add: evaluate_angles_def golden_fields golden_stats_def test_angle_means_def
      angle_values_def steady_test_def np_mean_def evaluate_step_def evaluate_angle_def
      downward_dog_config evaluate_with_dtw_def dtw_angle_def angle_sequence_def
      exact_dtw_steady golden_frames_def Let_def steady_result_def steady_left_knee_def)

lemma single_run: "evaluate_angles downward_dog exact_dtw single_test golden = Inr single_result"
  by (simp add: evaluate_angles_def golden_fields golden_stats_def test_angle_means_def
      angle_values_def single_test_def np_mean_def evaluate_step_def evaluate_angle_def
      downward_dog_config evaluate_with_dtw_def dtw_angle_def angle_sequence_def
      golden_frames_def Let_def single_result_def single_left_knee_def)



lemma result_entries:
  "map_of (angle_evaluations steady_result) ''left_knee'' = Some steady_left_knee"
  "map_of (angle_evaluations single_result) ''left_knee'' = Some single_left_knee"
  "map_of (angle_evaluations far_result) ''left_knee'' = Some far_left_knee"
  "map_of (angle_evaluations edge_result) ''left_knee'' = Some edge_left_knee"
  by (simp_all add: steady_result_def single_result_def far_result_def edge_result_def)

lemma elbow_golden_fields:
  "gs_angles elbow_golden = Some [(''left_elbow'', elbow_stats)]"
  "gs_angle_sequences elbow_golden = Some elbow_frames"
  by (simp_all add: elbow_golden_def create_golden_standard_def elbow_frames_def elbow_stats_def
      all_angle_names_def aggregate_angle_def angle_values_def np_mean_def np_min_def np_max_def
      Let_def)

lemma elbow_run: "evaluate_angles downward_dog exact_dtw elbow_test elbow_golden = Inr elbow_result"
  by (simp add: evaluate_angles_def elbow_golden_fields elbow_stats_def test_angle_means_def
      angle_values_def elbow_test_def np_mean_def evaluate_step_def evaluate_angle_def
      downward_dog_config evaluate_with_dtw_def dtw_angle_def angle_sequence_def
      elbow_frames_def Let_def elbow_result_def elbow_evaluation_def)

text \<open>
  The steady test video gets the same evaluation from every aligner that returns a distance
  of at least 90; each warping path between \<open>[90, 90, 90]\<close> and \<open>[0, 90, 180]\<close> costs at
  least 180. Without an aligner there is no DTW score at all.
\<close>

lemma steady_run_any_alignment:
  assumes "90 \<le> d"
  shows "evaluate_angles downward_dog (\<lambda>test_seq golden_seq. Some d) steady_test golden = Inr steady_result"
proof -
  have "100 - d / 3 / 30 * 100 \<le> 0" using assms by simp
  then have z: "max 0 (100 - d / 3 / 30 * 100) = 0" by simp
  have z': "max 0 (100 - d * 100 / 90) = 0" using assms by simp
  show ?thesis
    using z z' by (simp add: evaluate_angles_def golden_fields golden_stats_def test_angle_means_def
      angle_values_def steady_test_def np_mean_def evaluate_step_def evaluate_angle_def
      downward_dog_config evaluate_with_dtw_def dtw_angle_def angle_sequence_def
      golden_frames_def Let_def steady_result_def steady_left_knee_def)
qed

lemma steady_no_alignment:
  "dtw_scores_of downward_dog (\<lambda>test_seq golden_seq. None) steady_test golden ''left_knee'' = None"
  by (simp add: dtw_scores_of_def golden_fields evaluate_with_dtw_def dtw_angle_def
      downward_dog_config angle_sequence_def golden_frames_def steady_test_def Let_def)

subsection \<open>C1: the temporal score that evaluate\_angles attaches\<close>

text \<open>
  C1 says that the \<^verbatim>\<open>dtw_score\<close> of an angle in the result of
  \<^verbatim>\<open>evaluate_angles\<close> is the score of the reference algorithm on the two value
  sequences whenever both have at least three entries. The method that
  \<^verbatim>\<open>evaluate_angles\<close> calls is the second \<^verbatim>\<open>evaluate_with_dtw\<close> of the class, which
  divides the distance by \<open>(n + m) / 2\<close> and scales it by 30 instead of 180. On the steady
  test video against the golden standard, with the exact distance 180, the result holds
  the score 0 for the left knee, where the reference algorithm and the standalone
  \<^verbatim>\<open>dtw_score\<close> give \<open>250 / 3\<close>.
\<close>

theorem evaluate_angles_dtw_score_diverges:
  "evaluate_angles downward_dog exact_dtw steady_test golden = Inr steady_result \<and>
   gs_angle_sequences golden = Some golden_frames \<and>
   angle_sequence steady_test ''left_knee'' = [90, 90, 90] \<and>
   angle_sequence golden_frames ''left_knee'' = [0, 90, 180] \<and>
   map_option dtw_score_value (map_of (angle_evaluations steady_result) ''left_knee'') = Some (Some 0) \<and>
   dtw_score_spec [90, 90, 90] [0, 90, 180] = 250 / 3 \<and>
   dtw_score [90, 90, 90] [0, 90, 180] 180 = 250 / 3"
proof -
  have spec: "dtw_score_spec [90, 90, 90] [0, 90, 180] = 250 / 3"
    by (simp add: dtw_score_spec_def numeral_3_eq_3 min3_def)
  have code: "dtw_score [90, 90, 90] [0, 90, 180] 180 = dtw_score_spec [90, 90, 90] [0, 90, 180]"
    by (rule dtw_score_eq_spec) simp
  show ?thesis
    using steady_run steady_sequences golden_fields spec code
    by (simp add: steady_result_def steady_left_knee_def)
qed

subsection \<open>C2: the status of an angle\<close>




subsection \<open>C3: degenerate landmarks\<close>

text \<open>
  The \<^verbatim>\<open>except\<close> branch of \<^verbatim>\<open>_calculate_angle\<close> is never taken: the division is
  numpy's and does not raise, and the clipped cosine is in the domain of
  \<^verbatim>\<open>math.acos\<close> or is \<^verbatim>\<open>nan\<close>. With a difference vector of zero length the quotient
  is \<open>0 / 0\<close> and the angle returned is \<^verbatim>\<open>nan\<close>.
\<close>

lemma calculate_angle_not_None: "calculate_angle p1 p2 p3 \<noteq> None"
proof -
  have "math_acos (np_clip v (-1) 1) \<noteq> Inl ValueError" for v
    by (cases v) simp_all
  then show ?thesis
    by (auto simp: calculate_angle_def Let_def split: sum.splits) (metis error.exhaust)
qed

lemma calculate_angle_degenerate:
  assumes "(px p1 = px p2 \<and> py p1 = py p2 \<and> pz p1 = pz p2) \<or> (px p3 = px p2 \<and> py p3 = py p2 \<and> pz p3 = pz p2)"
  shows "calculate_angle p1 p2 p3 = Some NaN"
  using assms by (auto simp: calculate_angle_def Let_def np_dot_def np_linalg_norm_def np_divide_def)

text \<open>
  C3 says that an angle with a difference vector of zero length is omitted from the
  returned mapping, with no NaN placeholder. For the frame whose left shoulder and left
  elbow coincide, \<^verbatim>\<open>calculate_angles\<close> returns an entry for \<^verbatim>\<open>left_shoulder\<close>, and
  its value is \<^verbatim>\<open>nan\<close>.
\<close>

theorem calculate_angles_stores_nan:
  "calculate_angles downward_dog degenerate_landmarks = [(''left_shoulder'', NaN)]"
  by (simp add: calculate_angles_def joint_angle_def spine_angle_def downward_dog_config
      degenerate_landmarks_def calculate_angle_def np_dot_def np_linalg_norm_def np_divide_def
      Let_def)

subsection \<open>C5: the mean-based score\<close>



subsection \<open>C6: the combined score\<close>

text \<open>
  C6. For every angle in the result of \<^verbatim>\<open>evaluate_angles\<close>, the combined score is
  \<open>static_score * 0.7 + dtw_score * 0.3\<close> when the angle has a DTW score, and then lies
  between the two scores; it is the static score when the angle has none.
\<close>

theorem combined_score_blend:
  assumes run: "evaluate_angles self fastdtw test_angles gs = Inr res"
    and al: "gs_angles gs = Some al" and dist: "distinct (map fst al)"
    and ev: "map_of (angle_evaluations res) name = Some ev"
  shows "(\<forall>d. dtw_score_value ev = Some d \<longrightarrow>
            combined_score ev = mean_based_score ev * 0.7 + d * 0.3 \<and>
            min (mean_based_score ev) d \<le> combined_score ev \<and>
            combined_score ev \<le> max (mean_based_score ev) d) \<and>
         (dtw_score_value ev = None \<longrightarrow> combined_score ev = mean_based_score ev)"
proof -
  obtain s where e: "ev = evaluate_angle self (dtw_scores_of self fastdtw test_angles gs)
                     (np_mean (angle_values test_angles name)) name s"
    using evaluate_angles_entryD[OF run al dist ev] by blast
  have cb: "combined_score ev =
     (case dtw_score_value ev of
        Some d \<Rightarrow> mean_based_score ev * 0.7 + d * 0.3
      | None \<Rightarrow> mean_based_score ev)"
    unfolding e by (rule evaluate_angle_combined_score)
  show ?thesis using cb by (auto simp: min_def max_def)
qed

theorem combined_score_blend_witness:
  "evaluate_angles downward_dog exact_dtw steady_test golden = Inr steady_result \<and>
   evaluate_angles downward_dog exact_dtw single_test golden = Inr single_result \<and>
   gs_angles golden = Some golden_stats \<and> distinct (map fst golden_stats) \<and>
   map_of (angle_evaluations steady_result) ''left_knee'' = Some steady_left_knee \<and>
   map_of (angle_evaluations single_result) ''left_knee'' = Some single_left_knee \<and>
   dtw_score_value steady_left_knee = Some 0 \<and>
   combined_score steady_left_knee = mean_based_score steady_left_knee * 0.7 + 0 * 0.3 \<and>
   min (mean_based_score steady_left_knee) 0 \<le> combined_score steady_left_knee \<and>
   combined_score steady_left_knee \<le> max (mean_based_score steady_left_knee) 0 \<and>
   dtw_score_value single_left_knee = None \<and>
   combined_score single_left_knee = mean_based_score single_left_knee"
  using combined_score_blend[OF steady_run golden_fields(1) golden_stats_distinct result_entries(1)]
        combined_score_blend[OF single_run golden_fields(1) golden_stats_distinct result_entries(2)]
        steady_run single_run golden_fields(1) golden_stats_distinct result_entries
  by (simp add: steady_left_knee_def single_left_knee_def)

subsection \<open>C7: the overall score\<close>

text \<open>
  C7. The angles of the result are the golden angles that appear in some test frame, and
  only they enter the overall score: it is the sum of their combined scores times their
  weights (the confidence of the golden statistics) divided by the sum of their weights,
  whenever that sum is positive; it is 0 when no angle is included. In the witness the
  right knee, present in the golden standard and absent from the test video, adds nothing
  to either sum.
\<close>

theorem overall_score_weighted_mean:
  assumes run: "evaluate_angles self fastdtw test_angles gs = Inr res"
    and al: "gs_angles gs = Some al" and dist: "distinct (map fst al)"
  shows "map fst (angle_evaluations res) = map fst (included_angles test_angles al) \<and>
         (0 < sum_list (map (\<lambda>item. weight_of (snd item)) (included_angles test_angles al)) \<longrightarrow>
            overall_score res =
              sum_list (map (\<lambda>item. combined_score (the (map_of (angle_evaluations res) (fst item)))
                                      * weight_of (snd item)) (included_angles test_angles al))
              / sum_list (map (\<lambda>item. weight_of (snd item)) (included_angles test_angles al))) \<and>
         (included_angles test_angles al = [] \<longrightarrow> overall_score res = 0)"
proof -
  let ?D = "dtw_scores_of self fastdtw test_angles gs"
  let ?inc = "included_angles test_angles al"
  have ne: "test_angles \<noteq> []" using run by (auto simp: evaluate_angles_def split: if_splits)
  have res: "res = \<lparr>overall_score =
            (let D = dtw_scores_of self fastdtw test_angles gs;
                 total_score = sum_list (map (\<lambda>item. combined_score (evaluation_of self D test_angles item) * weight_of (snd item))
                                  (included_angles test_angles al));
                 total_weight = sum_list (map (\<lambda>item. weight_of (snd item)) (included_angles test_angles al))
             in if total_weight > 0 then total_score / total_weight else 0),
          angle_evaluations =
            map (\<lambda>item. (fst item, evaluation_of self (dtw_scores_of self fastdtw test_angles gs) test_angles item))
              (included_angles test_angles al),
          total_frames = length test_angles\<rparr>"
    using evaluate_angles_result[OF ne al dist, of self fastdtw] run by simp
  have keys: "map fst (angle_evaluations res) = map fst ?inc"
    by (subst res) (simp add: comp_def)
  have entry: "the (map_of (angle_evaluations res) (fst item)) = evaluation_of self ?D test_angles item"
    if "item \<in> set ?inc" for item
  proof -
    have "item \<in> set al" and "angle_values test_angles (fst item) \<noteq> []"
      using that by (auto simp: included_angles_def)
    then have "map_of al (fst item) = Some (snd item)" using dist by simp
    then show ?thesis
      using evaluate_angles_entry[OF run al dist, of "fst item"] \<open>angle_values test_angles (fst item) \<noteq> []\<close>
      by (simp add: evaluation_of_def)
  qed
  have sums: "map (\<lambda>item. combined_score (the (map_of (angle_evaluations res) (fst item))) * weight_of (snd item)) ?inc
            = map (\<lambda>item. combined_score (evaluation_of self ?D test_angles item) * weight_of (snd item)) ?inc"
    using entry by simp
  have overall: "overall_score res =
      (if 0 < sum_list (map (\<lambda>item. weight_of (snd item)) ?inc)
       then sum_list (map (\<lambda>item. combined_score (evaluation_of self ?D test_angles item) * weight_of (snd item)) ?inc)
            / sum_list (map (\<lambda>item. weight_of (snd item)) ?inc)
       else 0)"
    by (subst res) (simp add: Let_def)
  have weighted: "overall_score res =
      sum_list (map (\<lambda>item. combined_score (the (map_of (angle_evaluations res) (fst item)))
                                      * weight_of (snd item)) ?inc)
      / sum_list (map (\<lambda>item. weight_of (snd item)) ?inc)"
    if "0 < sum_list (map (\<lambda>item. weight_of (snd item)) ?inc)"
    unfolding sums using overall that by simp
  have none: "overall_score res = 0" if "?inc = []"
    using overall that by simp
  show ?thesis using keys weighted none by blast
qed

theorem overall_score_weighted_mean_witness:
  "evaluate_angles downward_dog exact_dtw single_test golden = Inr single_result \<and>
   gs_angles golden = Some golden_stats \<and> distinct (map fst golden_stats) \<and>
   map fst golden_stats = [''right_knee'', ''left_knee''] \<and>
   map fst (included_angles single_test golden_stats) = [''left_knee''] \<and>
   map fst (angle_evaluations single_result) = [''left_knee''] \<and>
   sum_list (map (\<lambda>item. weight_of (snd item)) (included_angles single_test golden_stats)) = 1 \<and>
   overall_score single_result = 85 * 1 / 1"
  using overall_score_weighted_mean[OF single_run golden_fields(1) golden_stats_distinct]
        single_run golden_fields(1) golden_stats_distinct
  by (simp add: included_angles_def golden_stats_def single_test_def angle_values_def weight_of_def
      single_result_def)

subsection \<open>C8 and C9: the golden standard\<close>










text \<open>
  C9. For every non-empty input sequence \<^verbatim>\<open>create_golden_standard\<close> returns a golden
  standard, which holds the input sequence unchanged under \<^verbatim>\<open>angle_sequences\<close> and its
  length under \<^verbatim>\<open>total_frames\<close>.
\<close>

theorem golden_standard_retains_sequence:
  assumes "angle_data \<noteq> []"
  shows "\<exists>gs. create_golden_standard self now angle_data video_source metadata = Inr gs \<and>
              gs_angle_sequences gs = Some angle_data \<and>
              gs_total_frames gs = length angle_data"
  using assms by (simp add: create_golden_standard_def Let_def)

theorem golden_standard_retains_sequence_witness:
  "golden_frames \<noteq> [] \<and>
   create_golden_standard downward_dog ''2024-01-01T00:00:00Z'' golden_frames ''golden.mp4'' None
     = Inr golden \<and>
   gs_angle_sequences golden = Some golden_frames \<and>
   gs_total_frames golden = length golden_frames"
proof -
  have ne: "golden_frames \<noteq> []" by (simp add: golden_frames_def)
  show ?thesis
    using golden_standard_retains_sequence[OF ne, of downward_dog "''2024-01-01T00:00:00Z''" "''golden.mp4''" None]
          golden_run ne
    by auto
qed

subsection \<open>C10: an angle without a configured tolerance\<close>

text \<open>
  C10. An angle that is in the golden statistics and in at least one test frame, and has
  no entry in the tolerance table of the pose, is evaluated: \<^verbatim>\<open>evaluate_angles\<close>
  returns a result, the result has an entry for the angle, and its score is computed with
  the tolerance 15.
\<close>

theorem default_tolerance_15:
  assumes ne: "test_angles \<noteq> []"
    and al: "gs_angles gs = Some al" and dist: "distinct (map fst al)"
    and stats: "map_of al name = Some s"
    and seen: "angle_values test_angles name \<noteq> []"
    and notol: "map_of (tolerances (angle_config self)) name = None"
  shows "\<exists>res ev. evaluate_angles self fastdtw test_angles gs = Inr res \<and>
           map_of (angle_evaluations res) name = Some ev \<and>
           tolerance ev = 15 \<and>
           deviation ev = np_mean (angle_values test_angles name) - s_mean s \<and>
           mean_based_score ev =
             (if \<bar>deviation ev\<bar> \<le> 15 then 100 - (\<bar>deviation ev\<bar> / 15) * 30
              else max 0 (70 - ((\<bar>deviation ev\<bar> - 15) / 15) * 70))"
proof -
  obtain res where run: "evaluate_angles self fastdtw test_angles gs = Inr res"
    using evaluate_angles_result[OF ne al dist] by blast
  let ?ev = "evaluate_angle self (dtw_scores_of self fastdtw test_angles gs)
               (np_mean (angle_values test_angles name)) name s"
  have "map_of (angle_evaluations res) name = Some ?ev"
    using evaluate_angles_entry[OF run al dist, of name] seen stats by simp
  moreover have tol15: "tolerance ?ev = 15" using notol by (simp add: evaluate_angle_fields)
  moreover have "deviation ?ev = np_mean (angle_values test_angles name) - s_mean s"
    by (simp add: evaluate_angle_fields)
  moreover have "mean_based_score ?ev =
             (if \<bar>deviation ?ev\<bar> \<le> 15 then 100 - (\<bar>deviation ?ev\<bar> / 15) * 30
              else max 0 (70 - ((\<bar>deviation ?ev\<bar> - 15) / 15) * 70))"
    using evaluate_angle_mean_based_score[of self "dtw_scores_of self fastdtw test_angles gs"
        "np_mean (angle_values test_angles name)" name s]
    unfolding tol15 by simp
  ultimately show ?thesis using run by blast
qed

theorem default_tolerance_15_witness:
  "elbow_test \<noteq> [] \<and>
   gs_angles elbow_golden = Some [(''left_elbow'', elbow_stats)] \<and>
   distinct (map fst [(''left_elbow'', elbow_stats)]) \<and>
   map_of [(''left_elbow'', elbow_stats)] ''left_elbow'' = Some elbow_stats \<and>
   angle_values elbow_test ''left_elbow'' \<noteq> [] \<and>
   map_of (tolerances (angle_config downward_dog)) ''left_elbow'' = None \<and>
   evaluate_angles downward_dog exact_dtw elbow_test elbow_golden = Inr elbow_result \<and>
   map_of (angle_evaluations elbow_result) ''left_elbow'' = Some elbow_evaluation \<and>
   tolerance elbow_evaluation = 15 \<and>
   mean_based_score elbow_evaluation = 94"
proof -
  have ne: "elbow_test \<noteq> []" by (simp add: elbow_test_def)
  have dist: "distinct (map fst [(''left_elbow'', elbow_stats)])" by simp
  have stats: "map_of [(''left_elbow'', elbow_stats)] ''left_elbow'' = Some elbow_stats" by simp
  have seen: "angle_values elbow_test ''left_elbow'' \<noteq> []"
    by (simp add: elbow_test_def angle_values_def)
  have notol: "map_of (tolerances (angle_config downward_dog)) ''left_elbow'' = None"
    by (simp add: downward_dog_config)
  show ?thesis
    using default_tolerance_15[OF ne elbow_golden_fields(1) dist stats seen notol, of exact_dtw]
          ne elbow_golden_fields(1) seen notol elbow_run
    by (auto simp: elbow_result_def elbow_evaluation_def)
qed

end
